theory Spec2Isabelle
  imports Main "HOL-Library.Sublist"
begin

section \<open>Data model\<close>

text \<open>
  The application keeps all of its state in Streamlit's \<^verbatim>\<open>st.session_state\<close>, a
  dictionary whose keys may be absent. Each key the modelled functions touch is a field
  of the record below, \<open>None\<close> meaning that the key is not in the dictionary.
  A \<^verbatim>\<open>datetime\<close> is the number of microseconds since the epoch (an \<open>int\<close>),
  and a \<^verbatim>\<open>timedelta\<close> a number of microseconds; the range limits of Python's
  \<^verbatim>\<open>datetime\<close> are not modelled. Python's \<^verbatim>\<open>int\<close> is \<open>int\<close>.
\<close>

record message =
  role :: string
  content :: string

record session_state =
  initialized :: "bool option"
  session_id :: "string option"
  messages :: "message list option"
  questions_used :: "int option"
  last_reset_time :: "int option"
  guest_mode :: "bool option"
  rate_limit_start :: "int option"
  user_token :: "string option"
  username :: "string option"
  refresh_token :: "string option"

text \<open>The three rate-limit fields of \<^verbatim>\<open>Settings\<close> (utils/config.py).\<close>

record settings =
  ANONYMOUS_RATE_LIMIT :: int
  AUTHENTICATED_RATE_LIMIT :: int
  RATE_LIMIT_WINDOW_HOURS :: int

definition default_settings :: settings where
  "default_settings =
     \<lparr>ANONYMOUS_RATE_LIMIT = 10, AUTHENTICATED_RATE_LIMIT = 50, RATE_LIMIT_WINDOW_HOURS = 1\<rparr>"

text \<open>
  The exception classes of utils/exceptions.py, each with its message, and the builtin
  exceptions the modelled code can raise. \<open>OtherException\<close> stands for an exception of
  a library that is a subclass of \<^verbatim>\<open>Exception\<close> and of none of the others.
\<close>

datatype error =
    APIError string
  | AuthError string
  | RateLimitError string
  | ValidationError string
  | AttributeError string
  | KeyError string
  | OtherException string

text \<open>\<^verbatim>\<open>str(e)\<close>: the message the exception was built with.\<close>

fun str_of :: "error \<Rightarrow> string" where
  "str_of (APIError m) = m"
| "str_of (AuthError m) = m"
| "str_of (RateLimitError m) = m"
| "str_of (ValidationError m) = m"
| "str_of (AttributeError m) = m"
| "str_of (KeyError m) = m"
| "str_of (OtherException m) = m"

text \<open>
  How a call leaves: it returns a value, it raises an exception, or it ends in
  \<^verbatim>\<open>st.experimental_rerun()\<close>. Streamlit's rerun raises a control exception
  derived from \<^verbatim>\<open>BaseException\<close>, which no \<^verbatim>\<open>except Exception\<close> of
  the code catches: the script run stops there and the session state is kept as it is.
\<close>

datatype 'a outcome = Returns 'a | Raises error | Rerun

section \<open>utils/session.py\<close>

text \<open>
  \<open>uuid4\<close> is the string \<^verbatim>\<open>str(uuid.uuid4())\<close> evaluates to when it is called,
  \<open>now\<close> the reading of \<^verbatim>\<open>datetime.utcnow()\<close>.
\<close>

definition initialize_session_state :: "string \<Rightarrow> int \<Rightarrow> session_state \<Rightarrow> session_state" where
  "initialize_session_state uuid4 now st =
     (if initialized st = None then
        st\<lparr>initialized := Some True, session_id := Some uuid4, messages := Some [],
           questions_used := Some 0, last_reset_time := Some now, guest_mode := Some True\<rparr>
      else st)"

definition get_session_id :: "string \<Rightarrow> session_state \<Rightarrow> string \<times> session_state" where
  "get_session_id uuid4 st =
     (case session_id st of
        None \<Rightarrow> (uuid4, st\<lparr>session_id := Some uuid4\<rparr>)
      | Some sid \<Rightarrow> (sid, st))"

definition reset_session :: "string \<Rightarrow> int \<Rightarrow> session_state \<Rightarrow> session_state" where
  "reset_session uuid4 now st =
     st\<lparr>messages := Some [], session_id := Some uuid4,
        questions_used := Some 0, last_reset_time := Some now\<rparr>"

definition add_message_to_history :: "message \<Rightarrow> session_state \<Rightarrow> session_state" where
  "add_message_to_history m st =
     (let st1 = (if messages st = None then st\<lparr>messages := Some []\<rparr> else st)
      in st1\<lparr>messages := map_option (\<lambda>ms. ms @ [m]) (messages st1)\<rparr>)"

definition get_current_messages :: "session_state \<Rightarrow> message list" where
  "get_current_messages st = (case messages st of None \<Rightarrow> [] | Some ms \<Rightarrow> ms)"

section \<open>utils/rate\_limit.py\<close>

definition timedelta_hours :: "int \<Rightarrow> int" where
  "timedelta_hours h = h * 3600000000"

definition tier_limit :: "settings \<Rightarrow> bool \<Rightarrow> int" where
  "tier_limit cfg guest =
     (if \<not> guest then AUTHENTICATED_RATE_LIMIT cfg else ANONYMOUS_RATE_LIMIT cfg)"

text \<open>
  \<open>check_rate_limit\<close>: \<open>current_time\<close> is the reading of the clock. Reading
  \<^verbatim>\<open>st.session_state.questions_used\<close> when the key is absent raises
  \<^verbatim>\<open>AttributeError\<close>; the writes made before stay.
\<close>

definition check_rate_limit ::
  "settings \<Rightarrow> int \<Rightarrow> bool \<Rightarrow> session_state \<Rightarrow> bool outcome \<times> session_state" where
  "check_rate_limit cfg current_time guest st =
     (let (start, st1) =
            (case rate_limit_start st of
               None \<Rightarrow> (current_time,
                         st\<lparr>rate_limit_start := Some current_time, questions_used := Some 0\<rparr>)
             | Some t \<Rightarrow> (t, st));
          window_hours = RATE_LIMIT_WINDOW_HOURS cfg;
          st2 = (if current_time - start > timedelta_hours window_hours
                 then st1\<lparr>rate_limit_start := Some current_time, questions_used := Some 0\<rparr>
                 else st1);
          limit = tier_limit cfg guest
      in case questions_used st2 of
           None \<Rightarrow> (Raises (AttributeError ''questions_used''), st2)
         | Some q \<Rightarrow> (Returns (q < limit), st2))"

definition state_guest_mode :: "session_state \<Rightarrow> bool" where
  "state_guest_mode st = (case guest_mode st of None \<Rightarrow> True | Some g \<Rightarrow> g)"

definition increment_rate_limit ::
  "settings \<Rightarrow> int \<Rightarrow> session_state \<Rightarrow> unit outcome \<times> session_state" where
  "increment_rate_limit cfg current_time st =
     (case check_rate_limit cfg current_time (state_guest_mode st) st of
        (Returns ok, st1) \<Rightarrow>
          (if \<not> ok then (Raises (RateLimitError ''Rate limit exceeded. Please try again later.''), st1)
           else (case questions_used st1 of
                   None \<Rightarrow> (Raises (AttributeError ''questions_used''), st1)
                 | Some q \<Rightarrow> (Returns (), st1\<lparr>questions_used := Some (q + 1)\<rparr>)))
      | (Raises e, st1) \<Rightarrow> (Raises e, st1)
      | (Rerun, st1) \<Rightarrow> (Rerun, st1))"

definition get_rate_limit_reset_time :: "settings \<Rightarrow> session_state \<Rightarrow> int option" where
  "get_rate_limit_reset_time cfg st =
     (case rate_limit_start st of
        Some t \<Rightarrow> Some (t + timedelta_hours (RATE_LIMIT_WINDOW_HOURS cfg))
      | None \<Rightarrow> None)"

section \<open>services/api\_client.py\<close>

text \<open>
  The HTTP exchange is the work of the \<^verbatim>\<open>requests\<close> library and of the remote
  API; its result is an input of the model. Either \<^verbatim>\<open>requests.post\<close> raises
  (a \<^verbatim>\<open>RequestException\<close> with its text, or some other exception), or it
  returns a response: the status code, the text of the \<^verbatim>\<open>HTTPError\<close> that
  \<^verbatim>\<open>raise_for_status()\<close> raises for this response when the status is in
  400..599, and what \<^verbatim>\<open>response.json()["response"]\<close> evaluates to (a string,
  or an exception).
\<close>

datatype lib_exception = RequestException string | NonRequestException error

datatype http_result =
    PostRaises lib_exception
  | Response int string "lib_exception + string"

definition lower_char :: "char \<Rightarrow> char" where
  "lower_char c =
     (let n = (of_char c :: nat) in if 65 \<le> n \<and> n \<le> 90 then char_of (n + 32) else c)"

text \<open>\<^verbatim>\<open>s.lower()\<close> on ASCII text.\<close>

definition lower :: "string \<Rightarrow> string" where
  "lower s = map lower_char s"

text \<open>\<^verbatim>\<open>pat in s\<close>: \<open>pat\<close> occurs in \<open>s\<close> as a contiguous substring.\<close>

fun contains :: "string \<Rightarrow> string \<Rightarrow> bool" where
  "contains [] pat = (pat = [])"
| "contains (c # cs) pat = (prefix pat (c # cs) \<or> contains cs pat)"

text \<open>The handler \<^verbatim>\<open>except RequestException as e\<close> of \<open>send_message\<close>.\<close>

fun send_message_except :: "lib_exception \<Rightarrow> error" where
  "send_message_except (RequestException m) =
     (if contains (lower m) ''timeout'' then APIError ''Request timed out. Please try again.''
      else APIError (''Failed to send message: '' @ m))"
| "send_message_except (NonRequestException e) = e"

text \<open>
  \<open>send_message\<close> reads the session state to build the request headers and writes
  nothing to it; the state is returned as it was received. The message, the session id
  and the guest flag go into the request's payload only.
\<close>

definition send_message ::
  "http_result \<Rightarrow> string \<Rightarrow> string \<Rightarrow> bool \<Rightarrow> session_state \<Rightarrow> string outcome \<times> session_state" where
  "send_message http msg sid guest st =
     (case http of
        PostRaises ex \<Rightarrow> (Raises (send_message_except ex), st)
      | Response status_code http_error body \<Rightarrow>
          (if status_code = 429
           then (Raises (RateLimitError ''Rate limit exceeded. Please try again later.''), st)
           else if 400 \<le> status_code \<and> status_code < 600
           then (Raises (send_message_except (RequestException http_error)), st)
           else (case body of
                   Inl ex \<Rightarrow> (Raises (send_message_except ex), st)
                 | Inr response \<Rightarrow> (Returns response, st))))"

text \<open>
  \<open>_handle_response_error\<close>: \<open>error_message\<close> is the text the function extracts
  from the response body. No function of the repository calls it.
\<close>

definition handle_response_error ::
  "int \<Rightarrow> string \<Rightarrow> session_state \<Rightarrow> unit outcome \<times> session_state" where
  "handle_response_error status_code error_message st =
     (if status_code = 429 then (Raises (RateLimitError error_message), st)
      else if status_code = 401
      then (Raises (APIError ''Authentication failed. Please log in again.''),
            st\<lparr>user_token := None\<rparr>)
      else (Raises (APIError (''API Error: '' @ error_message)), st))"

section \<open>components/chat\_interface.py\<close>

definition update_question_count :: "session_state \<Rightarrow> session_state" where
  "update_question_count st =
     (let st1 = (if questions_used st = None then st\<lparr>questions_used := Some 0\<rparr> else st)
      in st1\<lparr>questions_used := map_option (\<lambda>q. q + 1) (questions_used st1)\<rparr>)"

text \<open>
  \<open>_handle_user_input\<close>: \<open>handle_user_input_try\<close> is the body of its
  \<^verbatim>\<open>try\<close>, and \<^verbatim>\<open>except Exception\<close> catches every \<open>error\<close>.
  The value returned is the list of texts shown with \<^verbatim>\<open>st.error\<close>.
\<close>

definition handle_user_input_try ::
  "string \<Rightarrow> http_result \<Rightarrow> string \<Rightarrow> bool \<Rightarrow> session_state
     \<Rightarrow> string list outcome \<times> session_state" where
  "handle_user_input_try uuid4 http prompt guest st =
     (let (sid, st1) = get_session_id uuid4 st
      in case send_message http prompt sid guest st1 of
           (Returns response, st2) \<Rightarrow>
             (case messages st2 of
                None \<Rightarrow> (Raises (AttributeError ''messages''), st2)
              | Some ms \<Rightarrow>
                  (let st3 = st2\<lparr>messages :=
                               Some (ms @ [\<lparr>role = ''assistant'', content = response\<rparr>])\<rparr>;
                       st4 = update_question_count st3
                   in (Rerun, st4)))
         | (Raises e, st2) \<Rightarrow> (Raises e, st2)
         | (Rerun, st2) \<Rightarrow> (Rerun, st2))"

definition handle_user_input ::
  "string \<Rightarrow> http_result \<Rightarrow> string \<Rightarrow> bool \<Rightarrow> session_state
     \<Rightarrow> string list outcome \<times> session_state" where
  "handle_user_input uuid4 http prompt guest st =
     (let st1 = (if messages st = None then st\<lparr>messages := Some []\<rparr> else st);
          st2 = st1\<lparr>messages :=
                  map_option (\<lambda>ms. ms @ [\<lparr>role = ''user'', content = prompt\<rparr>]) (messages st1)\<rparr>
      in case handle_user_input_try uuid4 http prompt guest st2 of
           (Raises e, st3) \<Rightarrow> (Returns [''Error: '' @ str_of e], st3)
         | (Returns v, st3) \<Rightarrow> (Returns v, st3)
         | (Rerun, st3) \<Rightarrow> (Rerun, st3))"

text \<open>
  \<open>_render_chat_input\<close>: \<open>prompt\<close> is what \<^verbatim>\<open>st.chat_input\<close> returns
  (\<open>None\<close> when nothing was submitted; an empty string is false in Python too).
  An exception of \<open>check_rate_limit\<close> is not caught here. When the check fails the
  function shows a warning (not an error text) and returns.
\<close>

definition render_chat_input ::
  "settings \<Rightarrow> int \<Rightarrow> string \<Rightarrow> http_result \<Rightarrow> string option \<Rightarrow> bool \<Rightarrow> session_state
     \<Rightarrow> string list outcome \<times> session_state" where
  "render_chat_input cfg now uuid4 http prompt guest st =
     (case check_rate_limit cfg now guest st of
        (Returns ok, st1) \<Rightarrow>
          (if \<not> ok then (Returns [], st1)
           else (case prompt of
                   None \<Rightarrow> (Returns [], st1)
                 | Some p \<Rightarrow> (if p = [] then (Returns [], st1)
                              else handle_user_input uuid4 http p guest st1)))
      | (Raises e, st1) \<Rightarrow> (Raises e, st1)
      | (Rerun, st1) \<Rightarrow> (Rerun, st1))"

definition start_new_chat :: "string \<Rightarrow> session_state \<Rightarrow> unit outcome \<times> session_state" where
  "start_new_chat uuid4 st =
     (let st1 = st\<lparr>messages := Some []\<rparr>;
          (sid, st2) = get_session_id uuid4 st1
      in (Rerun, st2\<lparr>session_id := Some sid\<rparr>))"

section \<open>services/cognito.py and components/authentication.py\<close>

text \<open>
  The dictionary an authentication returns: \<^verbatim>\<open>AccessToken\<close> and
  \<^verbatim>\<open>ExpiresIn\<close> are always there, \<^verbatim>\<open>RefreshToken\<close> and
  \<^verbatim>\<open>Username\<close> only in the result of \<^verbatim>\<open>authenticate\<close>.
\<close>

record auth_result =
  AccessToken :: string
  RefreshToken :: "string option"
  ExpiresIn :: int
  Username :: "string option"

text \<open>
  The result of boto3's \<^verbatim>\<open>initiate_auth\<close>, an input of the model: a
  \<^verbatim>\<open>ClientError\<close> with its message, another exception, or an
  \<^verbatim>\<open>AuthenticationResult\<close> with its access token and lifetime.
\<close>

datatype initiate_auth_result =
    ClientError string
  | BotoRaises error
  | AuthenticationResult string int

fun cognito_refresh_token :: "initiate_auth_result \<Rightarrow> string \<Rightarrow> error + auth_result" where
  "cognito_refresh_token (AuthenticationResult tok expires) rt =
     Inr \<lparr>AccessToken = tok, RefreshToken = None, ExpiresIn = expires, Username = None\<rparr>"
| "cognito_refresh_token (ClientError error_message) rt =
     Inl (AuthError (''Token refresh failed: '' @ error_message))"
| "cognito_refresh_token (BotoRaises e) rt = Inl e"

definition logout :: "session_state \<Rightarrow> unit outcome \<times> session_state" where
  "logout st =
     (let st1 = (if user_token st \<noteq> None then st\<lparr>user_token := None\<rparr> else st);
          st2 = (if username st1 \<noteq> None then st1\<lparr>username := None\<rparr> else st1)
      in (Rerun, st2))"

definition handle_successful_auth ::
  "auth_result \<Rightarrow> session_state \<Rightarrow> unit outcome \<times> session_state" where
  "handle_successful_auth ar st =
     (let st1 = st\<lparr>user_token := Some (AccessToken ar)\<rparr>
      in case Username ar of
           None \<Rightarrow> (Raises (KeyError ''Username''), st1)
         | Some u \<Rightarrow> (Rerun, st1\<lparr>username := Some u\<rparr>))"

text \<open>
  \<open>AuthenticationManager.refresh_token\<close>. The handler \<^verbatim>\<open>except Exception\<close>
  calls \<open>logout\<close>, whose rerun ends the call.
\<close>

definition auth_refresh_token ::
  "initiate_auth_result \<Rightarrow> session_state \<Rightarrow> bool outcome \<times> session_state" where
  "auth_refresh_token boto st =
     (case refresh_token st of
        None \<Rightarrow> (Returns False, st)
      | Some rt \<Rightarrow>
          (if rt = [] then (Returns False, st)
           else (case cognito_refresh_token boto rt of
                   Inl e \<Rightarrow> (case logout st of (_, st1) \<Rightarrow> (Rerun, st1))
                 | Inr ar \<Rightarrow>
                     (case handle_successful_auth ar st of
                        (Raises e, st1) \<Rightarrow> (case logout st1 of (_, st2) \<Rightarrow> (Rerun, st2))
                      | (Rerun, st1) \<Rightarrow> (Rerun, st1)
                      | (Returns u, st1) \<Rightarrow> (Returns True, st1)))))"

section \<open>Message validation (the module of validate\_message)\<close>

text \<open>
  \<open>validate_message\<close> on ASCII text. \<^verbatim>\<open>str.strip()\<close> removes leading and
  trailing whitespace; the patterns of \<open>dangerous_patterns\<close> are literal texts searched
  with \<^verbatim>\<open>re.IGNORECASE\<close>.
\<close>

definition is_space :: "char \<Rightarrow> bool" where
  "is_space c = (let n = (of_char c :: nat) in (9 \<le> n \<and> n \<le> 13) \<or> (28 \<le> n \<and> n \<le> 32))"

definition strip :: "string \<Rightarrow> string" where
  "strip s = rev (dropWhile is_space (rev (dropWhile is_space s)))"

definition replace_char :: "char \<Rightarrow> string \<Rightarrow> string \<Rightarrow> string" where
  "replace_char old new s = concat (map (\<lambda>c. if c = old then new else [c]) s)"

definition dangerous_patterns :: "string list" where
  "dangerous_patterns =
     [''javascript:'', ''data:'', ''vbscript:'', ''onload='', ''onerror='', ''onclick='', ''eval('']"

definition validate_message :: "string \<Rightarrow> error + string" where
  "validate_message message0 =
     (let message1 = strip message0
      in if message1 = [] then Inl (ValidationError ''Message cannot be empty'')
         else if length message1 > 2000
         then Inl (ValidationError ''Message too long (max 2000 characters)'')
         else (let message2 = replace_char CHR ''>'' ''&gt;'' (replace_char CHR ''<'' ''&lt;'' message1)
               in if list_ex (\<lambda>pattern. contains (lower message2) pattern) dangerous_patterns
                  then Inl (ValidationError ''Message contains potentially dangerous content'')
                  else Inr message2))"

section \<open>Sequences of rate-limit operations\<close>

text \<open>
  A rate-limit operation is a call of \<open>check_rate_limit\<close> (with its guest flag) or of
  \<open>increment_rate_limit\<close>, made when the clock reads the given time. A reservation is
  allowed when \<open>increment_rate_limit\<close> returns instead of raising.
\<close>

datatype rate_op = Check bool int | Increment int

fun op_time :: "rate_op \<Rightarrow> int" where
  "op_time (Check g t) = t"
| "op_time (Increment t) = t"

fun rate_op_step :: "settings \<Rightarrow> rate_op \<Rightarrow> session_state \<Rightarrow> session_state" where
  "rate_op_step cfg (Check g t) st = snd (check_rate_limit cfg t g st)"
| "rate_op_step cfg (Increment t) st = snd (increment_rate_limit cfg t st)"

fun rate_op_allowed :: "settings \<Rightarrow> rate_op \<Rightarrow> session_state \<Rightarrow> bool" where
  "rate_op_allowed cfg (Check g t) st = False"
| "rate_op_allowed cfg (Increment t) st = (fst (increment_rate_limit cfg t st) = Returns ())"

fun rate_trace :: "settings \<Rightarrow> rate_op list \<Rightarrow> session_state \<Rightarrow> session_state list" where
  "rate_trace cfg [] st = []"
| "rate_trace cfg (x # xs) st = rate_op_step cfg x st # rate_trace cfg xs (rate_op_step cfg x st)"

fun allowed_count :: "settings \<Rightarrow> rate_op list \<Rightarrow> session_state \<Rightarrow> nat" where
  "allowed_count cfg [] st = 0"
| "allowed_count cfg (x # xs) st =
     (if rate_op_allowed cfg x st then 1 else 0) + allowed_count cfg xs (rate_op_step cfg x st)"

text \<open>The counter is set and at most the limit of the session's tier.\<close>

definition within_limit :: "settings \<Rightarrow> session_state \<Rightarrow> bool" where
  "within_limit cfg st =
     (case questions_used st of
        None \<Rightarrow> False
      | Some q \<Rightarrow> q \<le> tier_limit cfg (state_guest_mode st))"


text \<open>A guest session as \<open>initialize_session_state\<close> leaves it.\<close>

definition guest_state :: session_state where
  "guest_state =
     \<lparr>initialized = Some True, session_id = Some ''3f2b8c1e-7d4a-4c59-9e0b-5a6f1d2c3b4a'',
      messages = Some [], questions_used = Some 0, last_reset_time = Some 0,
      guest_mode = Some True, rate_limit_start = None, user_token = None,
      username = None, refresh_token = None\<rparr>"



text \<open>
  An authenticated session that also holds a refresh token, and the session state
  before \<open>initialize_session_state\<close> has run.
\<close>

definition logged_in_state :: session_state where
  "logged_in_state =
     \<lparr>initialized = Some True, session_id = Some ''3f2b8c1e-7d4a-4c59-9e0b-5a6f1d2c3b4a'',
      messages = Some [], questions_used = Some 0, last_reset_time = Some 0,
      guest_mode = Some False, rate_limit_start = None, user_token = Some ''access-token-1'',
      username = Some ''alice'', refresh_token = Some ''refresh-token-1''\<rparr>"

definition empty_state :: session_state where
  "empty_state =
     \<lparr>initialized = None, session_id = None, messages = None, questions_used = None,
      last_reset_time = None, guest_mode = None, rate_limit_start = None, user_token = None,
      username = None, refresh_token = None\<rparr>"

text \<open>
  A run of \<open>increment_rate_limit\<close> calls at the given clock readings: the outcome of
  each call and the state after the last.
\<close>

fun increment_all ::
  "settings \<Rightarrow> int list \<Rightarrow> session_state \<Rightarrow> unit outcome list \<times> session_state" where
  "increment_all cfg [] st = ([], st)"
| "increment_all cfg (t # ts) st =
     (case increment_rate_limit cfg t st of
        (r, st1) \<Rightarrow> (case increment_all cfg ts st1 of (rs, st2) \<Rightarrow> (r # rs, st2)))"

text \<open>
  The expected outcome of the \<open>i\<close>-th call (from 0) of a run that starts in a window
  whose counter is \<open>c\<close>.
\<close>

definition nth_reservation :: "int \<Rightarrow> int \<Rightarrow> nat \<Rightarrow> unit outcome" where
  "nth_reservation limit c i =
     (if c + int i < limit then Returns ()
      else Raises (RateLimitError ''Rate limit exceeded. Please try again later.''))"

section \<open>Properties of the rate limit\<close>

lemma check_guest_mode: "guest_mode (snd (check_rate_limit cfg t g st)) = guest_mode st"
  by (simp add: check_rate_limit_def Let_def split: option.splits)

lemma increment_guest_mode: "guest_mode (snd (increment_rate_limit cfg t st)) = guest_mode st"
  using check_guest_mode [of cfg t "state_guest_mode st" st]
  by (auto simp: increment_rate_limit_def split: prod.splits outcome.splits option.splits)

lemma step_guest_mode: "state_guest_mode (rate_op_step cfg x st) = state_guest_mode st"
  by (cases x) (simp_all add: state_guest_mode_def check_guest_mode increment_guest_mode)

lemma check_within:
  assumes "0 \<le> tier_limit cfg (state_guest_mode st)"
      and "rate_limit_start st = None \<or> within_limit cfg st"
  shows "within_limit cfg (snd (check_rate_limit cfg t g st))"
  using assms
  by (auto simp: check_rate_limit_def within_limit_def state_guest_mode_def Let_def
           split: option.splits)

lemma increment_within:
  assumes "0 \<le> tier_limit cfg (state_guest_mode st)"
      and "rate_limit_start st = None \<or> within_limit cfg st"
  shows "within_limit cfg (snd (increment_rate_limit cfg t st))"
  using assms
  by (auto simp: increment_rate_limit_def check_rate_limit_def within_limit_def
                 state_guest_mode_def Let_def
           split: option.splits)

lemma step_within:
  assumes "0 \<le> tier_limit cfg (state_guest_mode st)"
      and "rate_limit_start st = None \<or> within_limit cfg st"
  shows "within_limit cfg (rate_op_step cfg x st)"
  using assms by (cases x) (simp_all add: check_within increment_within)

lemma trace_within:
  assumes "0 \<le> tier_limit cfg (state_guest_mode st)"
      and "rate_limit_start st = None \<or> within_limit cfg st"
  shows "\<forall>st' \<in> set (rate_trace cfg ops st). within_limit cfg st'"
  using assms
proof (induction ops arbitrary: st)
  case Nil
  then show ?case by simp
next
  case (Cons x xs)
  have w: "within_limit cfg (rate_op_step cfg x st)"
    using Cons.prems by (rule step_within)
  have l: "0 \<le> tier_limit cfg (state_guest_mode (rate_op_step cfg x st))"
    using Cons.prems(1) by (simp add: step_guest_mode)
  from Cons.IH [OF l] w show ?case by simp
qed


lemma step_in_window:
  assumes "rate_limit_start st = Some t0" and "questions_used st = Some c"
      and "op_time x - t0 \<le> timedelta_hours (RATE_LIMIT_WINDOW_HOURS cfg)"
  shows "rate_limit_start (rate_op_step cfg x st) = Some t0
       \<and> questions_used (rate_op_step cfg x st) = Some (c + (if rate_op_allowed cfg x st then 1 else 0))
       \<and> (rate_op_allowed cfg x st \<longrightarrow> c < tier_limit cfg (state_guest_mode st))"
  using assms
  by (cases x) (auto simp: increment_rate_limit_def check_rate_limit_def Let_def)

lemma allowed_in_window:
  assumes "rate_limit_start st = Some t0" and "questions_used st = Some c"
      and "\<forall>x \<in> set ops. op_time x - t0 \<le> timedelta_hours (RATE_LIMIT_WINDOW_HOURS cfg)"
  shows "c + int (allowed_count cfg ops st) \<le> max c (tier_limit cfg (state_guest_mode st))"
  using assms
proof (induction ops arbitrary: st c)
  case Nil
  then show ?case by simp
next
  case (Cons x xs)
  let ?st = "rate_op_step cfg x st"
  let ?a = "if rate_op_allowed cfg x st then 1 else 0 :: int"
  have inw: "op_time x - t0 \<le> timedelta_hours (RATE_LIMIT_WINDOW_HOURS cfg)"
    using Cons.prems(3) by simp
  note s = step_in_window [OF Cons.prems(1) Cons.prems(2) inw]
  have rest: "\<forall>y \<in> set xs. op_time y - t0 \<le> timedelta_hours (RATE_LIMIT_WINDOW_HOURS cfg)"
    using Cons.prems(3) by simp
  have ih: "(c + ?a) + int (allowed_count cfg xs ?st) \<le> max (c + ?a) (tier_limit cfg (state_guest_mode ?st))"
    using Cons.IH [of ?st "c + ?a"] s rest by simp
  show ?case
  proof (cases "rate_op_allowed cfg x st")
    case True
    with s have "c < tier_limit cfg (state_guest_mode st)" by simp
    with ih True show ?thesis by (simp add: step_guest_mode)
  next
    case False
    with ih show ?thesis by (simp add: step_guest_mode)
  qed
qed

text \<open>
  Claim C1. For every sequence of checks and increments, run from a session whose
  window is not started yet or whose counter is within the limit of its tier (a limit
  that is not negative), the counter is at most the limit after every operation; and
  when all operations of the sequence fall in one window, the number of allowed
  reservations is at most the limit.
\<close>

theorem rate_limit_never_exceeded:
  assumes "0 \<le> tier_limit cfg (state_guest_mode st)"
      and "rate_limit_start st = None \<or> within_limit cfg st"
  shows "(\<forall>st' \<in> set (rate_trace cfg ops st). within_limit cfg st')
       \<and> (\<forall>t0 c. rate_limit_start st = Some t0 \<and> questions_used st = Some c \<and> 0 \<le> c
              \<and> (\<forall>x \<in> set ops. op_time x - t0 \<le> timedelta_hours (RATE_LIMIT_WINDOW_HOURS cfg))
            \<longrightarrow> int (allowed_count cfg ops st) \<le> tier_limit cfg (state_guest_mode st))"
proof (intro conjI allI impI)
  show "\<forall>st' \<in> set (rate_trace cfg ops st). within_limit cfg st'"
    using assms by (rule trace_within)
next
  fix t0 c
  assume h: "rate_limit_start st = Some t0 \<and> questions_used st = Some c \<and> 0 \<le> c
     \<and> (\<forall>x \<in> set ops. op_time x - t0 \<le> timedelta_hours (RATE_LIMIT_WINDOW_HOURS cfg))"
  then have "c + int (allowed_count cfg ops st) \<le> max c (tier_limit cfg (state_guest_mode st))"
    using allowed_in_window [of st t0 c ops cfg] by simp
  with h assms(1) show "int (allowed_count cfg ops st) \<le> tier_limit cfg (state_guest_mode st)"
    by (simp add: max_def split: if_splits)
qed

theorem rate_limit_never_exceeded_witness:
  "0 \<le> tier_limit default_settings (state_guest_mode guest_state)
   \<and> rate_limit_start guest_state = None
   \<and> list_all (within_limit default_settings)
        (rate_trace default_settings [Check True 5, Increment 6, Increment 7] guest_state)
   \<and> list_all (\<lambda>x. op_time x - 5 \<le> timedelta_hours (RATE_LIMIT_WINDOW_HOURS default_settings))
        [Increment 6, Increment 7]
   \<and> int (allowed_count default_settings [Increment 6, Increment 7]
            (guest_state\<lparr>rate_limit_start := Some 5\<rparr>)) \<le> 10"
proof -
  have a: "0 \<le> tier_limit default_settings (state_guest_mode guest_state)"
    by (simp add: tier_limit_def state_guest_mode_def guest_state_def default_settings_def)
  have b: "rate_limit_start guest_state = None"
    by (simp add: guest_state_def)
  let ?s = "guest_state\<lparr>rate_limit_start := Some 5\<rparr>"
  have a': "0 \<le> tier_limit default_settings (state_guest_mode ?s)"
    by (simp add: tier_limit_def state_guest_mode_def guest_state_def default_settings_def)
  have b': "rate_limit_start ?s = None \<or> within_limit default_settings ?s"
    by (simp add: within_limit_def tier_limit_def state_guest_mode_def guest_state_def
                  default_settings_def)
  have w: "\<forall>x \<in> set [Increment 6, Increment 7].
            op_time x - 5 \<le> timedelta_hours (RATE_LIMIT_WINDOW_HOURS default_settings)"
    by (simp add: timedelta_hours_def default_settings_def)
  have c: "rate_limit_start ?s = Some 5 \<and> questions_used ?s = Some 0 \<and> (0::int) \<le> 0"
    by (simp add: guest_state_def)
  have t: "tier_limit default_settings (state_guest_mode ?s) = 10"
    by (simp add: tier_limit_def state_guest_mode_def guest_state_def default_settings_def)
  from b rate_limit_never_exceeded [OF a, of "[Check True 5, Increment 6, Increment 7]"]
  have 1: "\<forall>st' \<in> set (rate_trace default_settings [Check True 5, Increment 6, Increment 7] guest_state).
       within_limit default_settings st'" by blast
  from rate_limit_never_exceeded [OF a' b', of "[Increment 6, Increment 7]"] c w t
  have 2: "int (allowed_count default_settings [Increment 6, Increment 7] ?s) \<le> 10"
    by metis
  from a b 1 w 2 show ?thesis unfolding list_all_iff by blast
qed

lemma increment_in_window:
  assumes "rate_limit_start st = Some t0" and "questions_used st = Some c"
      and "t - t0 \<le> timedelta_hours (RATE_LIMIT_WINDOW_HOURS cfg)"
  shows "increment_rate_limit cfg t st =
           (if c < tier_limit cfg (state_guest_mode st)
            then (Returns (), st\<lparr>questions_used := Some (c + 1)\<rparr>)
            else (Raises (RateLimitError ''Rate limit exceeded. Please try again later.''), st))"
  using assms by (simp add: increment_rate_limit_def check_rate_limit_def Let_def)

lemma check_in_window:
  assumes "rate_limit_start st = Some t0" and "questions_used st = Some c"
      and "t - t0 \<le> timedelta_hours (RATE_LIMIT_WINDOW_HOURS cfg)"
  shows "check_rate_limit cfg t g st = (Returns (c < tier_limit cfg g), st)"
  using assms by (simp add: check_rate_limit_def Let_def)

lemma nth_reservation_Suc:
  "map (nth_reservation l c) [0..<Suc n] = nth_reservation l c 0 # map (nth_reservation l (c + 1)) [0..<n]"
proof -
  have "map (nth_reservation l c) [0..<Suc n] = nth_reservation l c 0 # map (\<lambda>i. nth_reservation l c (Suc i)) [0..<n]"
    by (simp only: map_upt_Suc)
  moreover have "(\<lambda>i. nth_reservation l c (Suc i)) = nth_reservation l (c + 1)"
    by (rule ext) (simp add: nth_reservation_def add.assoc add.commute)
  ultimately show ?thesis by simp
qed

lemma nth_reservation_full:
  assumes "\<not> c < l"
  shows "map (nth_reservation l (c + 1)) [0..<n] = map (nth_reservation l c) [0..<n]"
  using assms by (simp add: nth_reservation_def)

lemma increment_all_in_window:
  assumes "rate_limit_start st = Some t0" and "questions_used st = Some c"
      and "\<forall>t \<in> set ts. t - t0 \<le> timedelta_hours (RATE_LIMIT_WINDOW_HOURS cfg)"
  shows "fst (increment_all cfg ts st)
           = map (nth_reservation (tier_limit cfg (state_guest_mode st)) c) [0..<length ts]
       \<and> rate_limit_start (snd (increment_all cfg ts st)) = Some t0"
  using assms
proof (induction ts arbitrary: st c)
  case Nil
  then show ?case by simp
next
  case (Cons t ts)
  let ?l = "tier_limit cfg (state_guest_mode st)"
  have inw: "t - t0 \<le> timedelta_hours (RATE_LIMIT_WINDOW_HOURS cfg)"
    using Cons.prems(3) by simp
  have rest: "\<forall>u \<in> set ts. u - t0 \<le> timedelta_hours (RATE_LIMIT_WINDOW_HOURS cfg)"
    using Cons.prems(3) by simp
  note step = increment_in_window [OF Cons.prems(1) Cons.prems(2) inw]
  show ?case
  proof (cases "c < ?l")
    case True
    let ?st = "st\<lparr>questions_used := Some (c + 1)\<rparr>"
    have ih: "fst (increment_all cfg ts ?st) = map (nth_reservation ?l (c + 1)) [0..<length ts]
        \<and> rate_limit_start (snd (increment_all cfg ts ?st)) = Some t0"
      using Cons.IH [of ?st "c + 1"] Cons.prems(1) rest by (simp add: state_guest_mode_def)
    have hd: "nth_reservation ?l c 0 = Returns ()"
      using True by (simp add: nth_reservation_def)
    show ?thesis
      using step True ih hd
      by (simp add: nth_reservation_Suc case_prod_beta del: upt_Suc)
  next
    case False
    have ih: "fst (increment_all cfg ts st) = map (nth_reservation ?l c) [0..<length ts]
        \<and> rate_limit_start (snd (increment_all cfg ts st)) = Some t0"
      using Cons.IH [of st c] Cons.prems(1,2) rest by simp
    have hd: "nth_reservation ?l c 0 = Raises (RateLimitError ''Rate limit exceeded. Please try again later.'')"
      using False by (simp add: nth_reservation_def)
    show ?thesis
      using step False ih hd nth_reservation_full [OF False, of "length ts"]
      by (simp add: nth_reservation_Suc case_prod_beta del: upt_Suc)
  qed
qed

text \<open>
  Claim C2. In a window started at \<open>t0\<close>, a check made while the counter is below the
  limit succeeds and changes nothing (and a check made at any time, in the window or
  after it, succeeds when the counter is not negative and below the limit); and of a run of reservation attempts made in a
  fresh window (counter 0), exactly the attempts numbered below the limit are allowed
  and every later one raises \<open>RateLimitError\<close>, after which the reset time is the
  window's start plus the window's duration.
\<close>

theorem exactly_limit_reservations:
  assumes "rate_limit_start st = Some t0" and "questions_used st = Some c"
      and "\<forall>t \<in> set (now # ts). t - t0 \<le> timedelta_hours (RATE_LIMIT_WINDOW_HOURS cfg)"
  shows "(c < tier_limit cfg g \<longrightarrow> check_rate_limit cfg now g st = (Returns True, st))
       \<and> (c = 0 \<longrightarrow>
            fst (increment_all cfg ts st)
              = map (\<lambda>i. if int i < tier_limit cfg (state_guest_mode st) then Returns ()
                         else Raises (RateLimitError ''Rate limit exceeded. Please try again later.''))
                    [0..<length ts]
            \<and> get_rate_limit_reset_time cfg (snd (increment_all cfg ts st))
              = Some (t0 + timedelta_hours (RATE_LIMIT_WINDOW_HOURS cfg)))
       \<and> (0 \<le> c \<and> c < tier_limit cfg g \<longrightarrow>
            fst (check_rate_limit cfg t g st) = Returns True)"
proof (intro conjI impI)
  assume "0 \<le> c \<and> c < tier_limit cfg g"
  then show "fst (check_rate_limit cfg t g st) = Returns True"
    using assms(1,2) by (simp add: check_rate_limit_def Let_def)
next
  assume "c < tier_limit cfg g"
  moreover have "now - t0 \<le> timedelta_hours (RATE_LIMIT_WINDOW_HOURS cfg)"
    using assms(3) by simp
  ultimately show "check_rate_limit cfg now g st = (Returns True, st)"
    using check_in_window [OF assms(1) assms(2), of now cfg g] by simp
next
  assume z: "c = 0"
  have rest: "\<forall>t \<in> set ts. t - t0 \<le> timedelta_hours (RATE_LIMIT_WINDOW_HOURS cfg)"
    using assms(3) by simp
  note all = increment_all_in_window [OF assms(1) assms(2) rest]
  from all z show "fst (increment_all cfg ts st)
              = map (\<lambda>i. if int i < tier_limit cfg (state_guest_mode st) then Returns ()
                         else Raises (RateLimitError ''Rate limit exceeded. Please try again later.''))
                    [0..<length ts]"
    by (simp add: nth_reservation_def)
  from all show "get_rate_limit_reset_time cfg (snd (increment_all cfg ts st))
              = Some (t0 + timedelta_hours (RATE_LIMIT_WINDOW_HOURS cfg))"
    by (simp add: get_rate_limit_reset_time_def)
qed


theorem exactly_limit_reservations_witness:
  "rate_limit_start (guest_state\<lparr>rate_limit_start := Some 5\<rparr>) = Some 5
   \<and> questions_used (guest_state\<lparr>rate_limit_start := Some 5\<rparr>) = Some 0
   \<and> list_all (\<lambda>t. t - 5 \<le> timedelta_hours (RATE_LIMIT_WINDOW_HOURS default_settings))
        [6, 10, 20, 30, 40, 50, 60, 70, 80, 90, 100, 3600000005]
   \<and> check_rate_limit default_settings 6 True (guest_state\<lparr>rate_limit_start := Some 5\<rparr>)
        = (Returns True, guest_state\<lparr>rate_limit_start := Some 5\<rparr>)
   \<and> fst (increment_all default_settings [10, 20, 30, 40, 50, 60, 70, 80, 90, 100, 3600000005]
            (guest_state\<lparr>rate_limit_start := Some 5\<rparr>))
        = [Returns (), Returns (), Returns (), Returns (), Returns (), Returns (), Returns (),
           Returns (), Returns (), Returns (),
           Raises (RateLimitError ''Rate limit exceeded. Please try again later.'')]
   \<and> get_rate_limit_reset_time default_settings
        (snd (increment_all default_settings [10, 20, 30, 40, 50, 60, 70, 80, 90, 100, 3600000005]
               (guest_state\<lparr>rate_limit_start := Some 5\<rparr>)))
        = Some 3600000005
   \<and> fst (check_rate_limit default_settings 9000000000 True
            (guest_state\<lparr>rate_limit_start := Some 5\<rparr>)) = Returns True"
proof -
  let ?s = "guest_state\<lparr>rate_limit_start := Some 5\<rparr>"
  let ?ts = "[10, 20, 30, 40, 50, 60, 70, 80, 90, 100, 3600000005] :: int list"
  have a: "rate_limit_start ?s = Some 5" by simp
  have b: "questions_used ?s = Some 0" by (simp add: guest_state_def)
  have w: "\<forall>t \<in> set (6 # ?ts). t - 5 \<le> timedelta_hours (RATE_LIMIT_WINDOW_HOURS default_settings)"
    by (simp add: timedelta_hours_def default_settings_def)
  have l: "tier_limit default_settings True = 10"
    by (simp add: tier_limit_def default_settings_def)
  have g: "state_guest_mode ?s = True"
    by (simp add: state_guest_mode_def guest_state_def)
  have len: "length ?ts = 11" by simp
  have rhs: "map (\<lambda>i. if int i < 10 then Returns ()
                       else Raises (RateLimitError ''Rate limit exceeded. Please try again later.''))
                 [0..<11]
             = [Returns (), Returns (), Returns (), Returns (), Returns (), Returns (), Returns (),
                Returns (), Returns (), Returns (),
                Raises (RateLimitError ''Rate limit exceeded. Please try again later.'')]"
    by code_simp
  have d: "timedelta_hours (RATE_LIMIT_WINDOW_HOURS default_settings) = 3600000000"
    by (simp add: timedelta_hours_def default_settings_def)
  note t = exactly_limit_reservations [OF a b w, where g = True and t = 9000000000]
  note t1 = t [THEN conjunct1]
  note t2 = t [THEN conjunct2, THEN conjunct1, THEN mp, OF refl]
  note t3 = t [THEN conjunct2, THEN conjunct2]
  from t1 l have 1: "check_rate_limit default_settings 6 True ?s = (Returns True, ?s)"
    by simp
  have 2: "fst (increment_all default_settings ?ts ?s)
        = [Returns (), Returns (), Returns (), Returns (), Returns (), Returns (), Returns (),
           Returns (), Returns (), Returns (),
           Raises (RateLimitError ''Rate limit exceeded. Please try again later.'')]"
    using t2 [THEN conjunct1] unfolding g l len rhs .
  have 3: "get_rate_limit_reset_time default_settings (snd (increment_all default_settings ?ts ?s))
        = Some 3600000005"
    using t2 [THEN conjunct2] unfolding d by simp
  from t3 l have 4: "fst (check_rate_limit default_settings 9000000000 True ?s) = Returns True"
    by simp
  from a b w 1 2 3 4 show ?thesis unfolding list_all_iff by blast
qed

section \<open>The window resets lazily\<close>

text \<open>
  Claim C3. A check or a reservation attempt made more than the window's duration
  after the window's start first sets the window's start to now and the counter to 0,
  whatever the counter was (even absent), and then evaluates the request on the fresh
  counter.
\<close>

theorem lazy_window_reset:
  assumes "rate_limit_start st = Some t0"
      and "now - t0 > timedelta_hours (RATE_LIMIT_WINDOW_HOURS cfg)"
  shows "check_rate_limit cfg now g st
           = (Returns (0 < tier_limit cfg g),
              st\<lparr>rate_limit_start := Some now, questions_used := Some 0\<rparr>)
       \<and> increment_rate_limit cfg now st
           = (if 0 < tier_limit cfg (state_guest_mode st)
              then (Returns (), st\<lparr>rate_limit_start := Some now, questions_used := Some 1\<rparr>)
              else (Raises (RateLimitError ''Rate limit exceeded. Please try again later.''),
                    st\<lparr>rate_limit_start := Some now, questions_used := Some 0\<rparr>))"
  using assms
  by (simp add: increment_rate_limit_def check_rate_limit_def Let_def)

theorem lazy_window_reset_witness:
  "rate_limit_start (guest_state\<lparr>rate_limit_start := Some 5, questions_used := Some 10\<rparr>) = Some 5
   \<and> 3600000006 - 5 > timedelta_hours (RATE_LIMIT_WINDOW_HOURS default_settings)
   \<and> check_rate_limit default_settings 3600000006 True
        (guest_state\<lparr>rate_limit_start := Some 5, questions_used := Some 10\<rparr>)
        = (Returns True, guest_state\<lparr>rate_limit_start := Some 3600000006, questions_used := Some 0\<rparr>)
   \<and> increment_rate_limit default_settings 3600000006
        (guest_state\<lparr>rate_limit_start := Some 5, questions_used := Some 10\<rparr>)
        = (Returns (), guest_state\<lparr>rate_limit_start := Some 3600000006, questions_used := Some 1\<rparr>)"
proof -
  let ?s = "guest_state\<lparr>rate_limit_start := Some 5, questions_used := Some 10\<rparr>"
  have a: "rate_limit_start ?s = Some 5" by simp
  have b: "3600000006 - 5 > timedelta_hours (RATE_LIMIT_WINDOW_HOURS default_settings)"
    by (simp add: timedelta_hours_def default_settings_def)
  have l: "tier_limit default_settings True = 10"
    by (simp add: tier_limit_def default_settings_def)
  have g: "state_guest_mode ?s = True"
    by (simp add: state_guest_mode_def guest_state_def)
  from lazy_window_reset [OF a b, of True] l g a b show ?thesis
    by (simp add: guest_state_def)
qed

section \<open>Appending messages\<close>

lemma add_message_Some:
  "messages (add_message_to_history m st) = Some (get_current_messages st @ [m])"
  by (simp add: add_message_to_history_def get_current_messages_def Let_def split: option.splits)

lemma fold_add_message_Some:
  "messages st = Some xs \<Longrightarrow> messages (fold add_message_to_history ms st) = Some (xs @ ms)"
proof (induction ms arbitrary: st xs)
  case Nil
  then show ?case by simp
next
  case (Cons m ms)
  have "messages (add_message_to_history m st) = Some (xs @ [m])"
    using Cons.prems by (simp add: add_message_Some get_current_messages_def)
  from Cons.IH [OF this] show ?case by simp
qed

lemma fold_add_message_current:
  "get_current_messages (fold add_message_to_history ms st) = get_current_messages st @ ms"
proof (cases ms)
  case Nil
  then show ?thesis by simp
next
  case (Cons m ms')
  have "messages (fold add_message_to_history ms' (add_message_to_history m st))
          = Some ((get_current_messages st @ [m]) @ ms')"
    by (rule fold_add_message_Some) (rule add_message_Some)
  with Cons show ?thesis by (simp add: get_current_messages_def)
qed

text \<open>
  Claim C9. After any sequence of \<open>add_message_to_history\<close> calls, the message list
  is the list before the calls followed by the appended messages in call order, from a
  list \<open>xs\<close> as from an absent one.
\<close>

theorem append_message_append_only:
  "messages (fold add_message_to_history ms (st\<lparr>messages := Some xs\<rparr>)) = Some (xs @ ms)
   \<and> get_current_messages (fold add_message_to_history ms st) = get_current_messages st @ ms"
  by (simp add: fold_add_message_Some fold_add_message_current)

section \<open>Submitting a message\<close>

lemma guest_state_initialized:
  "initialize_session_state ''3f2b8c1e-7d4a-4c59-9e0b-5a6f1d2c3b4a'' 0 empty_state = guest_state"
  by (simp add: initialize_session_state_def empty_state_def guest_state_def)

lemma render_chat_input_allowed:
  assumes "check_rate_limit cfg now guest st = (Returns True, st1)" and "p \<noteq> []"
  shows "render_chat_input cfg now uuid4 http (Some p) guest st
           = handle_user_input uuid4 http p guest st1"
  using assms by (simp add: render_chat_input_def)

lemma send_message_outcome:
  "send_message http m s g st = (fst (send_message http m' s' g' st'), st)"
proof (cases http)
  case (PostRaises ex)
  then show ?thesis by (simp add: send_message_def)
next
  case (Response status_code http_error body)
  then show ?thesis by (cases body) (simp_all add: send_message_def)
qed

lemma send_message_raises:
  assumes "fst (send_message http m' s' g' st') = Raises e"
  shows "send_message http m s g st = (Raises e, st)"
  using send_message_outcome [of http m s g st m' s' g' st'] assms by simp

lemma send_message_returns:
  assumes "fst (send_message http m' s' g' st') = Returns r"
  shows "send_message http m s g st = (Returns r, st)"
  using send_message_outcome [of http m s g st m' s' g' st'] assms by simp

lemma handle_user_input_raises:
  assumes "fst (send_message http prompt sid guest st') = Raises e"
  shows "fst (handle_user_input uuid4 http prompt guest st) = Returns [''Error: '' @ str_of e]"
    and "messages (snd (handle_user_input uuid4 http prompt guest st))
           = Some (get_current_messages st @ [\<lparr>role = ''user'', content = prompt\<rparr>])"
    and "questions_used (snd (handle_user_input uuid4 http prompt guest st)) = questions_used st"
  by (simp_all add: handle_user_input_def handle_user_input_try_def get_session_id_def
        get_current_messages_def send_message_raises [OF assms] Let_def
        split: option.splits)

lemma handle_user_input_returns:
  assumes "fst (send_message http prompt sid guest st') = Returns r"
  shows "fst (handle_user_input uuid4 http prompt guest st) = Rerun"
    and "messages (snd (handle_user_input uuid4 http prompt guest st))
           = Some (get_current_messages st @ [\<lparr>role = ''user'', content = prompt\<rparr>,
                                               \<lparr>role = ''assistant'', content = r\<rparr>])"
    and "questions_used (snd (handle_user_input uuid4 http prompt guest st))
           = Some ((case questions_used st of None \<Rightarrow> 0 | Some q \<Rightarrow> q) + 1)"
  by (simp_all add: handle_user_input_def handle_user_input_try_def get_session_id_def
        get_current_messages_def send_message_returns [OF assms] update_question_count_def Let_def
        split: option.splits)

text \<open>
  Claim C4, as stated, fails: a submit whose chat call fails on the transport or with
  a server error leaves the counter at 0, where the same submit with a successful call
  moves it to 1.
\<close>

theorem quota_not_spent_on_failure_counterexample:
  "questions_used (snd (handle_user_input ''9b2d7f60-1c3e-4a58-8f17-6e0a4c2b9d11''
       (PostRaises (RequestException ''Connection refused'')) ''hello'' True guest_state)) = Some 0
   \<and> questions_used (snd (handle_user_input ''9b2d7f60-1c3e-4a58-8f17-6e0a4c2b9d11''
       (Response 500 ''500 Server Error: Internal Server Error for url: /chat'' (Inr []))
       ''hello'' True guest_state)) = Some 0
   \<and> questions_used (snd (handle_user_input ''9b2d7f60-1c3e-4a58-8f17-6e0a4c2b9d11''
       (Response 200 [] (Inr ''Hi there'')) ''hello'' True guest_state)) = Some 1"
  by (simp add: handle_user_input_def handle_user_input_try_def get_session_id_def
        send_message_def update_question_count_def guest_state_def Let_def)

text \<open>
  Claim C4, amended. Quota is spent on success only: when the chat call raises,
  \<open>_handle_user_input\<close> leaves the questions-used counter as it was; when the call
  returns, the counter is incremented by one (from 0 when it was absent).
\<close>

theorem quota_spent_on_success_only:
  "(fst (send_message http prompt sid guest st') = Raises e \<longrightarrow>
      questions_used (snd (handle_user_input uuid4 http prompt guest st)) = questions_used st)
   \<and> (fst (send_message http prompt sid guest st') = Returns r \<longrightarrow>
      questions_used (snd (handle_user_input uuid4 http prompt guest st))
        = Some ((case questions_used st of None \<Rightarrow> 0 | Some q \<Rightarrow> q) + 1))"
  using handle_user_input_raises(3) handle_user_input_returns(3) by blast

text \<open>
  Claim C10. When the chat call raises, the user message appended before the call
  stays last in the message list, no assistant message follows it, the questions-used
  counter is unchanged, and the error is shown: the history is one message longer.
\<close>

theorem failed_submit_keeps_user_message:
  assumes "fst (send_message http prompt sid guest st') = Raises e"
  shows "fst (handle_user_input uuid4 http prompt guest st) = Returns [''Error: '' @ str_of e]
       \<and> messages (snd (handle_user_input uuid4 http prompt guest st))
           = Some (get_current_messages st @ [\<lparr>role = ''user'', content = prompt\<rparr>])
       \<and> questions_used (snd (handle_user_input uuid4 http prompt guest st)) = questions_used st
       \<and> length (get_current_messages (snd (handle_user_input uuid4 http prompt guest st)))
           = length (get_current_messages st) + 1"
  using handle_user_input_raises [OF assms, of uuid4 st]
  by (simp add: get_current_messages_def)

theorem quota_spent_on_success_only_witness:
  "fst (send_message (PostRaises (RequestException ''Connection refused'')) ''hello''
          ''3f2b8c1e-7d4a-4c59-9e0b-5a6f1d2c3b4a'' True guest_state)
     = Raises (APIError ''Failed to send message: Connection refused'')
   \<and> questions_used (snd (handle_user_input ''9b2d7f60-1c3e-4a58-8f17-6e0a4c2b9d11''
        (PostRaises (RequestException ''Connection refused'')) ''hello'' True guest_state))
     = questions_used guest_state
   \<and> fst (send_message (Response 200 [] (Inr ''Hi there'')) ''hello''
          ''3f2b8c1e-7d4a-4c59-9e0b-5a6f1d2c3b4a'' True guest_state)
     = Returns ''Hi there''
   \<and> questions_used (snd (handle_user_input ''9b2d7f60-1c3e-4a58-8f17-6e0a4c2b9d11''
        (Response 200 [] (Inr ''Hi there'')) ''hello'' True guest_state))
     = Some 1"
proof -
  have a: "fst (send_message (PostRaises (RequestException ''Connection refused'')) ''hello''
          ''3f2b8c1e-7d4a-4c59-9e0b-5a6f1d2c3b4a'' True guest_state)
     = Raises (APIError ''Failed to send message: Connection refused'')"
    by code_simp
  have b: "fst (send_message (Response 200 [] (Inr ''Hi there'')) ''hello''
          ''3f2b8c1e-7d4a-4c59-9e0b-5a6f1d2c3b4a'' True guest_state)
     = Returns ''Hi there''"
    by (simp add: send_message_def)
  have q: "questions_used guest_state = Some 0"
    by (simp add: guest_state_def)
  from quota_spent_on_success_only
         [of "PostRaises (RequestException ''Connection refused'')" "''hello''"
             "''3f2b8c1e-7d4a-4c59-9e0b-5a6f1d2c3b4a''" True guest_state
             "APIError ''Failed to send message: Connection refused''"
             "''9b2d7f60-1c3e-4a58-8f17-6e0a4c2b9d11''" guest_state] a
  have 1: "questions_used (snd (handle_user_input ''9b2d7f60-1c3e-4a58-8f17-6e0a4c2b9d11''
        (PostRaises (RequestException ''Connection refused'')) ''hello'' True guest_state))
     = questions_used guest_state"
    by blast
  from quota_spent_on_success_only
         [of "Response 200 [] (Inr ''Hi there'')" "''hello''"
             "''3f2b8c1e-7d4a-4c59-9e0b-5a6f1d2c3b4a''" True guest_state _
             "''9b2d7f60-1c3e-4a58-8f17-6e0a4c2b9d11''" guest_state "''Hi there''"] b q
  have 2: "questions_used (snd (handle_user_input ''9b2d7f60-1c3e-4a58-8f17-6e0a4c2b9d11''
        (Response 200 [] (Inr ''Hi there'')) ''hello'' True guest_state))
     = Some 1"
    by simp
  from a 1 b 2 show ?thesis by blast
qed

theorem failed_submit_keeps_user_message_witness:
  "fst (send_message (PostRaises (RequestException ''Connection refused'')) ''hello''
          ''3f2b8c1e-7d4a-4c59-9e0b-5a6f1d2c3b4a'' True guest_state)
     = Raises (APIError ''Failed to send message: Connection refused'')
   \<and> fst (handle_user_input ''9b2d7f60-1c3e-4a58-8f17-6e0a4c2b9d11''
        (PostRaises (RequestException ''Connection refused'')) ''hello'' True guest_state)
     = Returns [''Error: Failed to send message: Connection refused'']
   \<and> messages (snd (handle_user_input ''9b2d7f60-1c3e-4a58-8f17-6e0a4c2b9d11''
        (PostRaises (RequestException ''Connection refused'')) ''hello'' True guest_state))
     = Some [\<lparr>role = ''user'', content = ''hello''\<rparr>]
   \<and> questions_used (snd (handle_user_input ''9b2d7f60-1c3e-4a58-8f17-6e0a4c2b9d11''
        (PostRaises (RequestException ''Connection refused'')) ''hello'' True guest_state))
     = Some 0
   \<and> length (get_current_messages (snd (handle_user_input ''9b2d7f60-1c3e-4a58-8f17-6e0a4c2b9d11''
        (PostRaises (RequestException ''Connection refused'')) ''hello'' True guest_state)))
     = 1"
proof -
  have a: "fst (send_message (PostRaises (RequestException ''Connection refused'')) ''hello''
          ''3f2b8c1e-7d4a-4c59-9e0b-5a6f1d2c3b4a'' True guest_state)
     = Raises (APIError ''Failed to send message: Connection refused'')"
    by code_simp
  have g: "get_current_messages guest_state = []" "questions_used guest_state = Some 0"
    by (simp_all add: get_current_messages_def guest_state_def)
  from failed_submit_keeps_user_message
         [OF a, of "''9b2d7f60-1c3e-4a58-8f17-6e0a4c2b9d11''" guest_state] a g
  show ?thesis by simp
qed

section \<open>Refreshing the token\<close>

lemma logout_clears:
  "fst (logout st) = Rerun" "user_token (snd (logout st)) = None"
  "username (snd (logout st)) = None" "refresh_token (snd (logout st)) = refresh_token st"
  by (simp_all add: logout_def Let_def)

text \<open>
  Claim C7, as stated, fails: after a refresh whose Cognito call is rejected, the
  access token and the username are gone but the refresh token is still in the
  session state.
\<close>

theorem failed_refresh_keeps_refresh_token_counterexample:
  "cognito_refresh_token (ClientError ''Refresh Token has expired'') ''refresh-token-1''
     = Inl (AuthError ''Token refresh failed: Refresh Token has expired'')
   \<and> auth_refresh_token (ClientError ''Refresh Token has expired'') logged_in_state
     = (Rerun, logged_in_state\<lparr>user_token := None, username := None\<rparr>)
   \<and> refresh_token (snd (auth_refresh_token (ClientError ''Refresh Token has expired'')
        logged_in_state)) = Some ''refresh-token-1''"
  by (simp add: auth_refresh_token_def logout_def logged_in_state_def Let_def)

text \<open>
  Claim C7, amended. A refresh whose underlying call raises ends in \<open>logout\<close>:
  afterwards neither the access token nor the username is in the session state,
  never one without the other.
\<close>

theorem failed_refresh_clears_token_and_username:
  assumes "refresh_token st = Some rt" and "rt \<noteq> []"
      and "cognito_refresh_token boto rt = Inl e"
  shows "fst (auth_refresh_token boto st) = Rerun
       \<and> user_token (snd (auth_refresh_token boto st)) = None
       \<and> username (snd (auth_refresh_token boto st)) = None"
  using assms by (simp add: auth_refresh_token_def logout_clears case_prod_beta)

theorem failed_refresh_clears_token_and_username_witness:
  "refresh_token logged_in_state = Some ''refresh-token-1''
   \<and> ''refresh-token-1'' \<noteq> []
   \<and> cognito_refresh_token (ClientError ''Refresh Token has expired'') ''refresh-token-1''
       = Inl (AuthError ''Token refresh failed: Refresh Token has expired'')
   \<and> user_token logged_in_state = Some ''access-token-1''
   \<and> username logged_in_state = Some ''alice''
   \<and> fst (auth_refresh_token (ClientError ''Refresh Token has expired'') logged_in_state) = Rerun
   \<and> user_token (snd (auth_refresh_token (ClientError ''Refresh Token has expired'')
        logged_in_state)) = None
   \<and> username (snd (auth_refresh_token (ClientError ''Refresh Token has expired'')
        logged_in_state)) = None"
proof -
  have a: "refresh_token logged_in_state = Some ''refresh-token-1''"
    by (simp add: logged_in_state_def)
  have b: "''refresh-token-1'' \<noteq> []" by simp
  have c: "cognito_refresh_token (ClientError ''Refresh Token has expired'') ''refresh-token-1''
       = Inl (AuthError ''Token refresh failed: Refresh Token has expired'')"
    by simp
  have d: "user_token logged_in_state = Some ''access-token-1''"
          "username logged_in_state = Some ''alice''"
    by (simp_all add: logged_in_state_def)
  from failed_refresh_clears_token_and_username [OF a b c] a b c d
  show ?thesis by blast
qed

section \<open>A 401 answer of the chat API\<close>

text \<open>The unused \<open>_handle_response_error\<close> removes the token on status 401.\<close>

lemma handle_response_error_401:
  "handle_response_error 401 m st
     = (Raises (APIError ''Authentication failed. Please log in again.''),
        st\<lparr>user_token := None\<rparr>)"
  by (simp add: handle_response_error_def)

text \<open>
  Claim C8, at the failing input: \<open>send_message\<close> answered with status 401 raises
  \<open>APIError\<close> through \<^verbatim>\<open>raise_for_status\<close> and leaves the access token in
  the session state, in \<open>send_message\<close> as in the submit that calls it. Status 429
  raises \<open>RateLimitError\<close>, a different error.
\<close>

theorem send_message_401_keeps_token:
  "send_message (Response 401 ''401 Client Error: Unauthorized for url: https://api.example.com/chat''
        (Inr [])) ''hello'' ''3f2b8c1e-7d4a-4c59-9e0b-5a6f1d2c3b4a'' False logged_in_state
     = (Raises (APIError
          ''Failed to send message: 401 Client Error: Unauthorized for url: https://api.example.com/chat''),
        logged_in_state)
   \<and> user_token (snd (send_message
        (Response 401 ''401 Client Error: Unauthorized for url: https://api.example.com/chat''
          (Inr [])) ''hello'' ''3f2b8c1e-7d4a-4c59-9e0b-5a6f1d2c3b4a'' False logged_in_state))
     = Some ''access-token-1''
   \<and> user_token (snd (handle_user_input ''9b2d7f60-1c3e-4a58-8f17-6e0a4c2b9d11''
        (Response 401 ''401 Client Error: Unauthorized for url: https://api.example.com/chat''
          (Inr [])) ''hello'' False logged_in_state))
     = Some ''access-token-1''
   \<and> fst (send_message (Response 429 ''429 Client Error: Too Many Requests for url: https://api.example.com/chat''
        (Inr [])) ''hello'' ''3f2b8c1e-7d4a-4c59-9e0b-5a6f1d2c3b4a'' False logged_in_state)
     = Raises (RateLimitError ''Rate limit exceeded. Please try again later.'')"
  by code_simp

section \<open>Validation of the submitted text\<close>

text \<open>What \<open>validate_message\<close>, which the submit never calls, does on the two inputs.\<close>

lemma validate_message_examples:
  "validate_message ''   '' = Inl (ValidationError ''Message cannot be empty'')"
  "validate_message ''<script>alert(1)</script>hello''
     = Inr ''&lt;script&gt;alert(1)&lt;/script&gt;hello''"
  by code_simp+

text \<open>
  Claim C5, at the failing inputs: \<open>_handle_user_input\<close> stores a whitespace-only
  prompt and a prompt with a script tag as they are, sends them to the API and counts
  the question.
\<close>

theorem submit_stores_unvalidated_input:
  "handle_user_input ''9b2d7f60-1c3e-4a58-8f17-6e0a4c2b9d11''
       (Response 200 [] (Inr ''ok'')) ''   '' True guest_state
     = (Rerun, guest_state\<lparr>messages := Some [\<lparr>role = ''user'', content = ''   ''\<rparr>,
                                               \<lparr>role = ''assistant'', content = ''ok''\<rparr>],
                            questions_used := Some 1\<rparr>)
   \<and> handle_user_input ''9b2d7f60-1c3e-4a58-8f17-6e0a4c2b9d11''
       (Response 200 [] (Inr ''ok'')) ''<script>alert(1)</script>hello'' True guest_state
     = (Rerun, guest_state\<lparr>messages :=
                              Some [\<lparr>role = ''user'', content = ''<script>alert(1)</script>hello''\<rparr>,
                                    \<lparr>role = ''assistant'', content = ''ok''\<rparr>],
                            questions_used := Some 1\<rparr>)"
  by (simp add: handle_user_input_def handle_user_input_try_def get_session_id_def
        send_message_def update_question_count_def guest_state_def Let_def)

section \<open>Starting a new chat\<close>

text \<open>\<open>reset_session\<close> stores the newly generated id.\<close>

lemma reset_session_fresh_id: "session_id (reset_session uuid4 now st) = Some uuid4"
  by (simp add: reset_session_def)

text \<open>
  Claim C6, at the failing input: \<open>_start_new_chat\<close> on a session that has an id
  empties the message list and keeps the id; the newly generated UUID is not used.
\<close>

theorem start_new_chat_keeps_session_id:
  "start_new_chat ''9b2d7f60-1c3e-4a58-8f17-6e0a4c2b9d11''
       (guest_state\<lparr>messages := Some [\<lparr>role = ''user'', content = ''hello''\<rparr>,
                                        \<lparr>role = ''assistant'', content = ''Hi there''\<rparr>]\<rparr>)
     = (Rerun, guest_state)
   \<and> session_id (snd (start_new_chat ''9b2d7f60-1c3e-4a58-8f17-6e0a4c2b9d11''
       (guest_state\<lparr>messages := Some [\<lparr>role = ''user'', content = ''hello''\<rparr>,
                                        \<lparr>role = ''assistant'', content = ''Hi there''\<rparr>]\<rparr>)))
     = Some ''3f2b8c1e-7d4a-4c59-9e0b-5a6f1d2c3b4a''
   \<and> session_id guest_state = Some ''3f2b8c1e-7d4a-4c59-9e0b-5a6f1d2c3b4a''"
  by (simp add: start_new_chat_def get_session_id_def guest_state_def)

end
